theory Spec2Isabelle
  imports Main "HOL-Library.Sublist"
begin

section \<open>The MarkItDown converter script\<close>

text \<open>
  A shallow embedding of \<^verbatim>\<open>scripts/markitdown_converter.py\<close>: the functions
  \<^verbatim>\<open>check_markitdown_installed\<close>, \<^verbatim>\<open>convert_file\<close>, \<^verbatim>\<open>convert_bytes\<close> and
  \<^verbatim>\<open>main\<close>. The script is a thin wrapper, so nearly everything it does is an effect:
  it imports a library, asks the file system whether a path exists, calls the external
  converter, creates, writes and unlinks a temporary file, prints, and exits. Each effect
  is explicit here: the parts of the outside world the script cannot control are the
  fields of a record \<open>world\<close>, the parts it changes are the fields of a record \<open>state\<close>
  that every function takes and returns, and an exception is the \<open>Inl\<close> branch of a sum.
\<close>

subsection \<open>Python values, exceptions and dictionaries\<close>

type_synonym path = string
type_synonym bytes = string

text \<open>
  The exception classes the script can meet. \<open>KeyboardInterrupt\<close> and \<open>SystemExit\<close>
  derive from \<^verbatim>\<open>BaseException\<close> only, so \<^verbatim>\<open>except Exception\<close> does not catch them;
  all the others derive from \<^verbatim>\<open>Exception\<close>. An exception value carries its class and
  the text that \<^verbatim>\<open>str(e)\<close> returns.
\<close>

datatype exn_class =
    ImportError | OSError | KeyError | TypeError | OtherException
  | KeyboardInterrupt | SystemExit

datatype exn = Exn exn_class string

fun exn_str :: "exn \<Rightarrow> string" where
  "exn_str (Exn c msg) = msg"

fun isinstance_Exception :: "exn \<Rightarrow> bool" where
  "isinstance_Exception (Exn KeyboardInterrupt msg) = False"
| "isinstance_Exception (Exn SystemExit msg) = False"
| "isinstance_Exception (Exn c msg) = True"

fun isinstance_ImportError :: "exn \<Rightarrow> bool" where
  "isinstance_ImportError (Exn ImportError msg) = True"
| "isinstance_ImportError (Exn c msg) = False"

text \<open>
  The values the script stores in its result dictionaries: \<^verbatim>\<open>None\<close>, a boolean or a
  string. A dictionary is an association list in insertion order, as a Python \<^verbatim>\<open>dict\<close>
  literal builds it.
\<close>

datatype pyval = PyNone | PyBool bool | PyStr string

type_synonym pydict = "(string \<times> pyval) list"


text \<open>\<^verbatim>\<open>d[k]\<close>: the value, or \<^verbatim>\<open>KeyError\<close>.\<close>

definition getitem :: "pydict \<Rightarrow> string \<Rightarrow> exn + pyval" where
  "getitem d k =
     (case map_of d k of
        None \<Rightarrow> Inl (Exn KeyError k)
      | Some v \<Rightarrow> Inr v)"

text \<open>Truth value of a Python object, as \<^verbatim>\<open>if x:\<close> and \<^verbatim>\<open>not x\<close> test it.\<close>

fun truthy :: "pyval \<Rightarrow> bool" where
  "truthy PyNone = False"
| "truthy (PyBool b) = b"
| "truthy (PyStr s) = (s \<noteq> [])"

text \<open>What an f-string or \<^verbatim>\<open>print\<close> shows for a value.\<close>

fun py_str :: "pyval \<Rightarrow> string" where
  "py_str PyNone = ''None''"
| "py_str (PyBool b) = (if b then ''True'' else ''False'')"
| "py_str (PyStr s) = s"

text \<open>
  An optional command-line argument is \<^verbatim>\<open>None\<close> when absent, a string otherwise;
  \<^verbatim>\<open>not args.file_path\<close> holds for \<^verbatim>\<open>None\<close> and for the empty string.
\<close>

fun opt_val :: "string option \<Rightarrow> pyval" where
  "opt_val None = PyNone"
| "opt_val (Some s) = PyStr s"

subsection \<open>Path and string helpers of the standard library\<close>

text \<open>\<^verbatim>\<open>str.startswith\<close>.\<close>

definition startswith :: "string \<Rightarrow> string \<Rightarrow> bool" where
  "startswith s p = (take (length p) s = p)"

text \<open>
  \<^verbatim>\<open>str.lower\<close>, on the ASCII letters (a \<open>char\<close> is a byte; the other bytes stay).
\<close>

definition char_lower :: "char \<Rightarrow> char" where
  "char_lower c =
     (let n = (of_char c :: nat) in
      if 65 \<le> n \<and> n \<le> 90 then char_of (n + 32) else c)"

definition lower :: "string \<Rightarrow> string" where
  "lower s = map char_lower s"

text \<open>
  \<^verbatim>\<open>os.path.basename\<close> of \<^verbatim>\<open>posixpath\<close>: everything after the last slash.
\<close>

definition basename :: "path \<Rightarrow> string" where
  "basename p = rev (takeWhile (\<lambda>c. c \<noteq> CHR ''/'') (rev p))"

text \<open>
  \<^verbatim>\<open>pathlib.PurePosixPath\<close>: the path is split at slashes, empty components and
  \<^verbatim>\<open>.\<close> components are dropped, the name is the last component left (or the empty
  string), and the suffix is the part of the name from its last dot on, provided that
  dot is neither the first nor the last character of the name.
\<close>

fun split_slash :: "string \<Rightarrow> string list" where
  "split_slash [] = [[]]"
| "split_slash (c # cs) =
     (if c = CHR ''/'' then [] # split_slash cs
      else (case split_slash cs of
              [] \<Rightarrow> [[c]]
            | x # xs \<Rightarrow> (c # x) # xs))"

definition path_name :: "path \<Rightarrow> string" where
  "path_name p =
     (case rev (filter (\<lambda>c. c \<noteq> [] \<and> c \<noteq> ''.'') (split_slash p)) of
        [] \<Rightarrow> []
      | n # ns \<Rightarrow> n)"

definition rfind_dot :: "string \<Rightarrow> int" where
  "rfind_dot s =
     (let r = takeWhile (\<lambda>c. c \<noteq> CHR ''.'') (rev s) in
      if length r = length s then - 1
      else int (length s) - int (length r) - 1)"

definition path_suffix :: "path \<Rightarrow> string" where
  "path_suffix p =
     (let name = path_name p; i = rfind_dot name in
      if 0 < i \<and> i < int (length name) - 1 then drop (nat i) name else [])"

text \<open>\<^verbatim>\<open>os.path.join\<close> of a directory and a relative file name.\<close>

definition os_path_join :: "path \<Rightarrow> string \<Rightarrow> path" where
  "os_path_join dir name =
     (if dir = [] \<or> last dir = CHR ''/'' then dir @ name else dir @ ''/'' @ name)"

subsection \<open>The outside world and the state\<close>

text \<open>
  What the script cannot control is a parameter:
  \<^item> \<open>import_markitdown\<close>: what \<^verbatim>\<open>from markitdown import MarkItDown\<close> does, \<open>None\<close>
    when the import succeeds and the exception it raises otherwise;
  \<^item> \<open>MarkItDown_init\<close>: what the constructor \<^verbatim>\<open>MarkItDown(enable_plugins=b)\<close> raises,
    if anything;
  \<^item> \<open>MarkItDown_convert\<close>: what \<^verbatim>\<open>md.convert(path).text_content\<close> gives for a converter
    built with the plugin flag \<open>b\<close>, on the files as they are: the markdown text, or the
    exception raised (\<^verbatim>\<open>text_content\<close> is a \<^verbatim>\<open>str\<close> in the library). The converter
    reads the file system and does not change it;
  \<^item> \<open>gettempdir\<close> and \<open>candidate_names\<close>: the temporary directory and the sequence of
    random names \<^verbatim>\<open>tempfile\<close> tries there (at most \<^verbatim>\<open>TMP_MAX\<close> of them);
  \<^item> \<open>write_error\<close>: the error, if any, that the operating system reports when the
    given bytes are written to the given file and the file is closed (disk full,
    quota, no permission).
\<close>

record world =
  import_markitdown :: "exn option"
  MarkItDown_init :: "bool \<Rightarrow> exn option"
  MarkItDown_convert :: "bool \<Rightarrow> (path \<rightharpoonup> bytes) \<Rightarrow> path \<Rightarrow> exn + string"
  gettempdir :: path
  candidate_names :: "string list"
  write_error :: "path \<Rightarrow> bytes \<Rightarrow> exn option"

text \<open>
  What the script changes: the files (a map from paths to contents), the two output
  streams, and, to make ``the converter is not invoked'' a statement about the state,
  the log of the calls made to the external converter.
\<close>

datatype call = Init bool | Convert path

text \<open>
  One \<^verbatim>\<open>print\<close> to standard output: \<^verbatim>\<open>print(json.dumps(d))\<close> is the dictionary printed
  (the JSON text is not modelled, the object it encodes is), any other \<^verbatim>\<open>print\<close> is
  its text. On the error stream, \<open>Usage m\<close> is what \<^verbatim>\<open>parser.error(m)\<close> writes: the
  usage line of the parser followed by the message \<open>m\<close>.
\<close>

datatype out = Json pydict | Text string

datatype err = Usage string | ErrText string

record state =
  files :: "path \<rightharpoonup> bytes"
  calls :: "call list"
  stdout :: "out list"
  stderr :: "err list"

definition print :: "out \<Rightarrow> state \<Rightarrow> state" where
  "print x st = st\<lparr>stdout := stdout st @ [x]\<rparr>"

definition print_stderr :: "string \<Rightarrow> state \<Rightarrow> state" where
  "print_stderr s st = st\<lparr>stderr := stderr st @ [ErrText s]\<rparr>"

text \<open>\<^verbatim>\<open>os.path.exists\<close>.\<close>

definition os_path_exists :: "state \<Rightarrow> path \<Rightarrow> bool" where
  "os_path_exists st p = (files st p \<noteq> None)"

text \<open>
  \<^verbatim>\<open>os.unlink\<close>: removes the file, or raises \<^verbatim>\<open>FileNotFoundError\<close> (an \<^verbatim>\<open>OSError\<close>).
\<close>

definition os_unlink :: "path \<Rightarrow> state \<Rightarrow> (exn + unit) \<times> state" where
  "os_unlink p st =
     (if files st p = None
      then (Inl (Exn OSError (''[Errno 2] No such file or directory: '' @ p)), st)
      else (Inr (), st\<lparr>files := (files st)(p := None)\<rparr>))"

text \<open>
  Writing a file and closing it: the file then holds the data, or the operating system
  reports an error and the file is left as it was before the write.
\<close>

definition write_file :: "world \<Rightarrow> path \<Rightarrow> bytes \<Rightarrow> state \<Rightarrow> (exn + unit) \<times> state" where
  "write_file w p data st =
     (case write_error w p data of
        Some e \<Rightarrow> (Inl e, st)
      | None \<Rightarrow> (Inr (), st\<lparr>files := (files st)(p \<mapsto> data)\<rparr>))"

text \<open>
  \<^verbatim>\<open>tempfile.NamedTemporaryFile(suffix=s, delete=False)\<close>: the candidate names are
  tried in order, the first one whose file \<^verbatim>\<open>dir/tmp<name><suffix>\<close> does not exist is
  created empty (the file is opened with \<^verbatim>\<open>O_EXCL\<close>), and \<^verbatim>\<open>FileExistsError\<close> is raised
  when every candidate exists.
\<close>

fun mkstemp_inner :: "(path \<rightharpoonup> bytes) \<Rightarrow> path \<Rightarrow> string \<Rightarrow> string list \<Rightarrow> path option" where
  "mkstemp_inner fs dir suf [] = None"
| "mkstemp_inner fs dir suf (name # names) =
     (let file = os_path_join dir (''tmp'' @ name @ suf) in
      if fs file = None then Some file else mkstemp_inner fs dir suf names)"

definition NamedTemporaryFile :: "world \<Rightarrow> string \<Rightarrow> state \<Rightarrow> (exn + path) \<times> state" where
  "NamedTemporaryFile w suf st =
     (case mkstemp_inner (files st) (gettempdir w) suf (candidate_names w) of
        None \<Rightarrow> (Inl (Exn OSError ''[Errno 17] No usable temporary file name found''), st)
      | Some file \<Rightarrow> (Inr file, st\<lparr>files := (files st)(file \<mapsto> [])\<rparr>))"

text \<open>
  The two calls into the library, each logged: the constructor (the converter object is
  its plugin flag) and \<^verbatim>\<open>md.convert(path).text_content\<close>.
\<close>

definition MarkItDown :: "world \<Rightarrow> bool \<Rightarrow> state \<Rightarrow> (exn + bool) \<times> state" where
  "MarkItDown w enable_plugins st =
     (let st1 = st\<lparr>calls := calls st @ [Init enable_plugins]\<rparr> in
      case MarkItDown_init w enable_plugins of
        Some e \<Rightarrow> (Inl e, st1)
      | None \<Rightarrow> (Inr enable_plugins, st1))"

definition md_convert :: "world \<Rightarrow> bool \<Rightarrow> path \<Rightarrow> state \<Rightarrow> (exn + string) \<times> state" where
  "md_convert w md p st =
     (MarkItDown_convert w md (files st) p, st\<lparr>calls := calls st @ [Convert p]\<rparr>)"

subsection \<open>The functions of the script\<close>

text \<open>
  \<^verbatim>\<open>check_markitdown_installed\<close>: \<^verbatim>\<open>True\<close> when the import succeeds, \<^verbatim>\<open>False\<close> when it
  raises \<^verbatim>\<open>ImportError\<close>; any other exception of the import is not caught.
\<close>

definition check_markitdown_installed :: "world \<Rightarrow> exn + bool" where
  "check_markitdown_installed w =
     (case import_markitdown w of
        None \<Rightarrow> Inr True
      | Some e \<Rightarrow> if isinstance_ImportError e then Inr False else Inl e)"

text \<open>The three dictionary literals of \<^verbatim>\<open>convert_file\<close>.\<close>

definition file_not_found :: "path \<Rightarrow> pydict" where
  "file_not_found file_path =
     [(''success'', PyBool False),
      (''error'', PyStr (''File not found: '' @ file_path)),
      (''markdown'', PyNone),
      (''file_path'', PyStr file_path)]"

definition file_success :: "path \<Rightarrow> string \<Rightarrow> pydict" where
  "file_success file_path text_content =
     [(''success'', PyBool True),
      (''error'', PyNone),
      (''markdown'', PyStr text_content),
      (''file_path'', PyStr file_path),
      (''file_name'', PyStr (basename file_path)),
      (''file_extension'', PyStr (lower (path_suffix file_path)))]"

definition file_failure :: "path \<Rightarrow> exn \<Rightarrow> pydict" where
  "file_failure file_path e =
     [(''success'', PyBool False),
      (''error'', PyStr (exn_str e)),
      (''markdown'', PyNone),
      (''file_path'', PyStr file_path)]"

text \<open>
  The handler \<^verbatim>\<open>except Exception as e\<close> of \<^verbatim>\<open>convert_file\<close>: an instance of
  \<^verbatim>\<open>Exception\<close> becomes a failure dictionary, anything else goes on to the caller.
\<close>

definition convert_file_except :: "path \<Rightarrow> exn \<Rightarrow> state \<Rightarrow> (exn + pydict) \<times> state" where
  "convert_file_except file_path e st =
     (if isinstance_Exception e then (Inr (file_failure file_path e), st) else (Inl e, st))"

definition convert_file :: "world \<Rightarrow> path \<Rightarrow> bool \<Rightarrow> state \<Rightarrow> (exn + pydict) \<times> state" where
  "convert_file w file_path enable_plugins st =
     (case import_markitdown w of
        Some e \<Rightarrow> (Inl e, st)
      | None \<Rightarrow>
          if \<not> os_path_exists st file_path then (Inr (file_not_found file_path), st)
          else
            (case MarkItDown w enable_plugins st of
               (Inl e, st1) \<Rightarrow> convert_file_except file_path e st1
             | (Inr md, st1) \<Rightarrow>
                 (case md_convert w md file_path st1 of
                    (Inl e, st2) \<Rightarrow> convert_file_except file_path e st2
                  | (Inr text_content, st2) \<Rightarrow>
                      (Inr (file_success file_path text_content), st2))))"

text \<open>The two dictionary literals of \<^verbatim>\<open>convert_bytes\<close>.\<close>

definition bytes_success :: "string \<Rightarrow> string \<Rightarrow> pydict" where
  "bytes_success file_extension text_content =
     [(''success'', PyBool True),
      (''error'', PyNone),
      (''markdown'', PyStr text_content),
      (''file_extension'', PyStr file_extension)]"

definition bytes_failure :: "string \<Rightarrow> exn \<Rightarrow> pydict" where
  "bytes_failure file_extension e =
     [(''success'', PyBool False),
      (''error'', PyStr (exn_str e)),
      (''markdown'', PyNone),
      (''file_extension'', PyStr file_extension)]"

text \<open>
  The inner \<^verbatim>\<open>try\<close> block of \<^verbatim>\<open>convert_bytes\<close> (construct, convert, return the
  success dictionary), without its \<^verbatim>\<open>finally\<close>.
\<close>

definition convert_bytes_try ::
    "world \<Rightarrow> path \<Rightarrow> string \<Rightarrow> bool \<Rightarrow> state \<Rightarrow> (exn + pydict) \<times> state" where
  "convert_bytes_try w temp_path file_extension enable_plugins st =
     (case MarkItDown w enable_plugins st of
        (Inl e, st1) \<Rightarrow> (Inl e, st1)
      | (Inr md, st1) \<Rightarrow>
          (case md_convert w md temp_path st1 of
             (Inl e, st2) \<Rightarrow> (Inl e, st2)
           | (Inr text_content, st2) \<Rightarrow>
               (Inr (bytes_success file_extension text_content), st2)))"

text \<open>
  The inner block with its \<^verbatim>\<open>finally: os.unlink(temp_path)\<close>. The \<^verbatim>\<open>finally\<close> clause
  runs whether the block returned or raised; an exception of \<^verbatim>\<open>os.unlink\<close> replaces
  the pending return value or exception.
\<close>

definition convert_bytes_finally ::
    "world \<Rightarrow> path \<Rightarrow> string \<Rightarrow> bool \<Rightarrow> state \<Rightarrow> (exn + pydict) \<times> state" where
  "convert_bytes_finally w temp_path file_extension enable_plugins st =
     (case convert_bytes_try w temp_path file_extension enable_plugins st of
        (r, st1) \<Rightarrow>
          (case os_unlink temp_path st1 of
             (Inl e, st2) \<Rightarrow> (Inl e, st2)
           | (Inr u, st2) \<Rightarrow> (r, st2)))"

text \<open>
  The body of the outer \<^verbatim>\<open>try\<close>: the \<^verbatim>\<open>with\<close> block creates the temporary file and
  writes the content to it, then the inner block runs. An exception of the \<^verbatim>\<open>with\<close>
  block leaves the outer \<^verbatim>\<open>try\<close> at once: the inner block and its \<^verbatim>\<open>finally\<close> are
  not entered.
\<close>

definition convert_bytes_body ::
    "world \<Rightarrow> bytes \<Rightarrow> string \<Rightarrow> bool \<Rightarrow> state \<Rightarrow> (exn + pydict) \<times> state" where
  "convert_bytes_body w content file_extension enable_plugins st =
     (case NamedTemporaryFile w file_extension st of
        (Inl e, st1) \<Rightarrow> (Inl e, st1)
      | (Inr temp_path, st1) \<Rightarrow>
          (case write_file w temp_path content st1 of
             (Inl e, st2) \<Rightarrow> (Inl e, st2)
           | (Inr u, st2) \<Rightarrow>
               convert_bytes_finally w temp_path file_extension enable_plugins st2))"

definition convert_bytes ::
    "world \<Rightarrow> bytes \<Rightarrow> string \<Rightarrow> bool \<Rightarrow> state \<Rightarrow> (exn + pydict) \<times> state" where
  "convert_bytes w content file_extension enable_plugins st =
     (case import_markitdown w of
        Some e \<Rightarrow> (Inl e, st)
      | None \<Rightarrow>
          (let file_extension' =
                 (if \<not> startswith file_extension ''.'' then ''.'' @ file_extension
                  else file_extension)
           in case convert_bytes_body w content file_extension' enable_plugins st of
                (Inl e, st1) \<Rightarrow>
                  if isinstance_Exception e
                  then (Inr (bytes_failure file_extension' e), st1)
                  else (Inl e, st1)
              | (Inr result, st1) \<Rightarrow> (Inr result, st1)))"

subsection \<open>The command line\<close>

text \<open>
  The \<^verbatim>\<open>Namespace\<close> that \<^verbatim>\<open>parser.parse_args()\<close> returns. The model of \<^verbatim>\<open>main\<close> starts
  from it: splitting the command line into these five values is \<^verbatim>\<open>argparse\<close>'s work.
\<close>

record args =
  file_path :: "string option"
  "output" :: "string option"
  json :: bool
  enable_plugins :: bool
  check :: bool

text \<open>
  How the process ends: with an exit status (\<^verbatim>\<open>sys.exit(n)\<close>, or \<open>0\<close> when \<^verbatim>\<open>main\<close>
  returns), or with an exception that nothing caught.
\<close>

datatype outcome = Exit nat | Uncaught exn

definition not_installed :: string where
  "not_installed = ''markitdown not installed. Run: pip install markitdown''"

text \<open>
  \<^verbatim>\<open>parser.error(message)\<close>: \<^verbatim>\<open>argparse\<close> prints the usage and the message to the error
  stream and exits with status 2.
\<close>

definition parser_error :: "string \<Rightarrow> state \<Rightarrow> outcome \<times> state" where
  "parser_error message st = (Exit 2, st\<lparr>stderr := stderr st @ [Usage message]\<rparr>)"

text \<open>Lines 224 to 236 of \<^verbatim>\<open>main\<close>: what is done with the result of \<^verbatim>\<open>convert_file\<close>.\<close>

definition handle_output :: "world \<Rightarrow> args \<Rightarrow> pydict \<Rightarrow> state \<Rightarrow> outcome \<times> state" where
  "handle_output w a result st =
     (if json a then (Exit 0, print (Json result) st)
      else
        (case getitem result ''success'' of
           Inl e \<Rightarrow> (Uncaught e, st)
         | Inr success \<Rightarrow>
             if truthy success then
               (if truthy (opt_val (output a)) then
                  (case getitem result ''markdown'' of
                     Inl e \<Rightarrow> (Uncaught e, st)
                   | Inr (PyStr markdown) \<Rightarrow>
                       (case write_file w (case output a of Some p \<Rightarrow> p | None \<Rightarrow> []) markdown st of
                          (Inl e, st1) \<Rightarrow> (Uncaught e, st1)
                        | (Inr u, st1) \<Rightarrow>
                            (Exit 0,
                             print (Text (''Converted successfully: '' @ py_str (opt_val (output a)))) st1))
                   | Inr v \<Rightarrow> (Uncaught (Exn TypeError ''write() argument must be str''), st))
                else
                  (case getitem result ''markdown'' of
                     Inl e \<Rightarrow> (Uncaught e, st)
                   | Inr markdown \<Rightarrow> (Exit 0, print (Text (py_str markdown)) st)))
             else
               (case getitem result ''error'' of
                  Inl e \<Rightarrow> (Uncaught e, st)
                | Inr error \<Rightarrow> (Exit 1, print_stderr (''Error: '' @ py_str error) st))))"

definition main :: "world \<Rightarrow> args \<Rightarrow> state \<Rightarrow> outcome \<times> state" where
  "main w a st =
     (if check a then
        (case check_markitdown_installed w of
           Inl e \<Rightarrow> (Uncaught e, st)
         | Inr installed \<Rightarrow>
             if installed then (Exit 0, print (Json [(''installed'', PyBool True)]) st)
             else (Exit 1, print (Json [(''installed'', PyBool False),
                                        (''error'', PyStr not_installed)]) st))
      else if \<not> truthy (opt_val (file_path a)) then
        parser_error ''file_path is required for conversion (use --check to verify installation)'' st
      else
        (case check_markitdown_installed w of
           Inl e \<Rightarrow> (Uncaught e, st)
         | Inr installed \<Rightarrow>
             if \<not> installed then
               (let error_result =
                      [(''success'', PyBool False),
                       (''error'', PyStr not_installed),
                       (''markdown'', PyNone)]
                in if json a then (Exit 1, print (Json error_result) st)
                   else (case getitem error_result ''error'' of
                           Inl e \<Rightarrow> (Uncaught e, st)
                         | Inr error \<Rightarrow> (Exit 1, print_stderr (''Error: '' @ py_str error) st)))
             else
               (case convert_file w (case file_path a of Some p \<Rightarrow> p | None \<Rightarrow> [])
                       (enable_plugins a) st of
                  (Inl e, st1) \<Rightarrow> (Uncaught e, st1)
                | (Inr result, st1) \<Rightarrow> handle_output w a result st1)))"

subsection \<open>Properties of a result, and the inputs used as examples\<close>

text \<open>
  The invariant of a conversion result: when \<^verbatim>\<open>success\<close> is true, \<^verbatim>\<open>markdown\<close> is a
  string and \<^verbatim>\<open>error\<close> is \<^verbatim>\<open>None\<close>; when it is false, \<^verbatim>\<open>error\<close> is a string and
  \<^verbatim>\<open>markdown\<close> is \<^verbatim>\<open>None\<close>.
\<close>

fun is_str :: "exn + pyval \<Rightarrow> bool" where
  "is_str (Inr (PyStr s)) = True"
| "is_str x = False"

definition result_invariant :: "pydict \<Rightarrow> bool" where
  "result_invariant d =
     (if getitem d ''success'' = Inr (PyBool True)
      then is_str (getitem d ''markdown'') \<and> getitem d ''error'' = Inr PyNone
      else getitem d ''success'' = Inr (PyBool False) \<and>
           is_str (getitem d ''error'') \<and> getitem d ''markdown'' = Inr PyNone)"


text \<open>
  A world in which the library is installed and the converter turns the content \<open>c\<close> of
  a file into the text \<open># c\<close>, and a state with one document.
\<close>

definition example_world :: world where
  "example_world =
     \<lparr>import_markitdown = None,
      MarkItDown_init = (\<lambda>b. None),
      MarkItDown_convert =
        (\<lambda>b fs p. case fs p of
                     None \<Rightarrow> Inl (Exn OSError (''[Errno 2] No such file or directory: '' @ p))
                   | Some c \<Rightarrow> Inr (''# '' @ c)),
      gettempdir = ''/tmp'',
      candidate_names = [''abc'', ''def''],
      write_error = (\<lambda>p data. None)\<rparr>"

definition example_state :: state where
  "example_state =
     \<lparr>files = [''/docs/Report.PDF'' \<mapsto> ''hello''], calls = [], stdout = [], stderr = []\<rparr>"

text \<open>The same world with a full disk: every write fails.\<close>

definition disk_full :: exn where
  "disk_full = Exn OSError ''[Errno 28] No space left on device''"

definition disk_full_world :: world where
  "disk_full_world = example_world\<lparr>write_error := (\<lambda>p data. Some disk_full)\<rparr>"

text \<open>The same world without the library.\<close>

definition no_module :: exn where
  "no_module = Exn ImportError ''No module named markitdown''"

definition missing_world :: world where
  "missing_world = example_world\<lparr>import_markitdown := Some no_module\<rparr>"



text \<open>
  Command lines: \<^verbatim>\<open>FILE\<close>, \<^verbatim>\<open>FILE --json\<close>, no argument at all, and \<^verbatim>\<open>--check --json\<close>.
\<close>

definition plain_args :: "path \<Rightarrow> args" where
  "plain_args p =
     \<lparr>file_path = Some p, output = None, json = False, enable_plugins = False, check = False\<rparr>"

definition json_args :: "path \<Rightarrow> args" where
  "json_args p = (plain_args p)\<lparr>json := True\<rparr>"



section \<open>Supporting lemmas\<close>

subsection \<open>The temporary file\<close>

text \<open>
  A name that \<open>mkstemp_inner\<close> returns is fresh: no file has it.
\<close>

lemma mkstemp_inner_fresh:
  "mkstemp_inner fs dir suf names = Some f \<Longrightarrow> fs f = None"
  by (induction names) (auto simp: Let_def split: if_splits)

text \<open>
  The calls into the library change the log only.
\<close>

lemma convert_bytes_try_files:
  "convert_bytes_try w tp ext b st = (r, st') \<Longrightarrow> files st' = files st"
  by (auto simp: convert_bytes_try_def MarkItDown_def md_convert_def Let_def
           split: option.splits sum.splits prod.splits)

text \<open>
  Once the inner block is entered with the temporary file in place, its \<^verbatim>\<open>finally\<close>
  clause removes that file, however the block ends.
\<close>

lemma convert_bytes_finally_files:
  assumes "convert_bytes_finally w tp ext b st = (r, st')" and "files st tp \<noteq> None"
  shows "files st' = (files st)(tp := None)"
proof -
  obtain r1 st1 where t: "convert_bytes_try w tp ext b st = (r1, st1)"
    by (cases "convert_bytes_try w tp ext b st")
  then have "files st1 = files st"
    by (rule convert_bytes_try_files)
  with assms t show ?thesis
    by (auto simp: convert_bytes_finally_def os_unlink_def split: if_splits)
qed

lemma convert_bytes_body_files:
  assumes "convert_bytes_body w content ext b st = (r, st')"
    and "\<And>p. write_error w p content = None"
  shows "files st' = files st"
proof (cases "mkstemp_inner (files st) (gettempdir w) ext (candidate_names w)")
  case None
  with assms(1) show ?thesis
    by (simp add: convert_bytes_body_def NamedTemporaryFile_def)
next
  case (Some tp)
  then have fresh: "files st tp = None"
    by (rule mkstemp_inner_fresh)
  let ?st2 = "st\<lparr>files := (files st)(tp \<mapsto> content)\<rparr>"
  from assms Some have "convert_bytes_finally w tp ext b ?st2 = (r, st')"
    by (simp add: convert_bytes_body_def NamedTemporaryFile_def write_file_def)
  then have "files st' = (files ?st2)(tp := None)"
    by (rule convert_bytes_finally_files) simp
  with fresh show ?thesis
    by (simp add: fun_upd_idem)
qed

text \<open>
  When the write of the content succeeds, \<^verbatim>\<open>convert_bytes\<close> leaves the files exactly as
  it found them, whether it returns a success, returns a failure or raises: the
  temporary file is fresh, so removing it restores the map.
\<close>

lemma convert_bytes_files_restored:
  assumes "\<And>p. write_error w p content = None"
  shows "files (snd (convert_bytes w content ext b st)) = files st"
proof (cases "import_markitdown w")
  case (Some e)
  then show ?thesis by (simp add: convert_bytes_def)
next
  case None
  let ?ext = "if \<not> startswith ext ''.'' then ''.'' @ ext else ext"
  obtain r st1 where body: "convert_bytes_body w content ?ext b st = (r, st1)"
    by (cases "convert_bytes_body w content ?ext b st")
  then have "files st1 = files st"
    using assms by (rule convert_bytes_body_files)
  with None body show ?thesis
    by (cases r) (simp_all add: convert_bytes_def Let_def)
qed

subsection \<open>The dictionaries returned\<close>

text \<open>
  Every dictionary that \<^verbatim>\<open>convert_file\<close> or \<^verbatim>\<open>convert_bytes\<close> returns is one of
  their literals.
\<close>

lemma convert_file_results:
  assumes "convert_file w p b st = (Inr d, st')"
  shows "d = file_not_found p \<or> (\<exists>e. d = file_failure p e) \<or> (\<exists>t. d = file_success p t)"
  using assms
  by (auto simp: convert_file_def convert_file_except_def MarkItDown_def md_convert_def Let_def
           split: option.splits if_splits sum.splits)

lemma convert_bytes_finally_results:
  assumes "convert_bytes_finally w tp ext b st = (Inr d, st')"
  shows "\<exists>t. d = bytes_success ext t"
  using assms
  by (auto simp: convert_bytes_finally_def convert_bytes_try_def os_unlink_def MarkItDown_def
           md_convert_def Let_def
           split: option.splits if_splits sum.splits prod.splits)

lemma convert_bytes_body_results:
  assumes "convert_bytes_body w c ext b st = (Inr d, st')"
  shows "\<exists>t. d = bytes_success ext t"
  using assms convert_bytes_finally_results
  by (auto simp: convert_bytes_body_def NamedTemporaryFile_def write_file_def
           split: option.splits sum.splits prod.splits)

lemma convert_bytes_results:
  assumes "convert_bytes w c ext b st = (Inr d, st')"
  shows "\<exists>x. (\<exists>e. d = bytes_failure x e) \<or> (\<exists>t. d = bytes_success x t)"
proof (cases "import_markitdown w")
  case (Some e)
  with assms show ?thesis by (simp add: convert_bytes_def)
next
  case None
  let ?ext = "if \<not> startswith ext ''.'' then ''.'' @ ext else ext"
  obtain r st1 where body: "convert_bytes_body w c ?ext b st = (r, st1)"
    by (cases "convert_bytes_body w c ?ext b st")
  show ?thesis
  proof (cases r)
    case (Inl e)
    with assms None body have "d = bytes_failure ?ext e"
      by (simp add: convert_bytes_def Let_def split: if_splits)
    then show ?thesis by blast
  next
    case (Inr d1)
    with assms None body have "d = d1"
      by (simp add: convert_bytes_def Let_def)
    with body Inr show ?thesis
      using convert_bytes_body_results by blast
  qed
qed

lemma result_invariant_literals:
  "result_invariant (file_not_found p)"
  "result_invariant (file_failure p e)"
  "result_invariant (file_success p t)"
  "result_invariant (bytes_failure x e)"
  "result_invariant (bytes_success x t)"
  by (simp_all add: result_invariant_def getitem_def file_not_found_def file_failure_def
      file_success_def bytes_failure_def bytes_success_def)





subsection \<open>The exit status\<close>

text \<open>
  The exit status of \<^verbatim>\<open>main\<close> once \<^verbatim>\<open>convert_file\<close> has returned a result: in JSON
  mode it is 0 whatever the result says; in plain mode it is 1 for a failure, and 0 for
  a success printed to standard output.
\<close>

lemma main_exit_status:
  assumes "\<not> check a" and "file_path a = Some p" and "p \<noteq> []"
    and "import_markitdown w = None"
    and "convert_file w p (enable_plugins a) st = (Inr d, st1)"
  shows "json a \<Longrightarrow> fst (main w a st) = Exit 0"
    and "\<not> json a \<Longrightarrow> getitem d ''success'' = Inr (PyBool False) \<Longrightarrow> fst (main w a st) = Exit 1"
    and "\<not> json a \<Longrightarrow> getitem d ''success'' = Inr (PyBool True) \<Longrightarrow> output a = None \<Longrightarrow>
           fst (main w a st) = Exit 0"
proof -
  from assms have m: "main w a st = handle_output w a d st1"
    by (simp add: main_def check_markitdown_installed_def)
  have cases: "d = file_not_found p \<or> (\<exists>e. d = file_failure p e) \<or> (\<exists>t. d = file_success p t)"
    using assms(5) convert_file_results by blast
  show "json a \<Longrightarrow> fst (main w a st) = Exit 0"
    by (simp add: m handle_output_def)
  show "\<not> json a \<Longrightarrow> getitem d ''success'' = Inr (PyBool False) \<Longrightarrow> fst (main w a st) = Exit 1"
    using cases
    by (auto simp: m handle_output_def getitem_def file_not_found_def file_failure_def
        file_success_def)
  show "\<not> json a \<Longrightarrow> getitem d ''success'' = Inr (PyBool True) \<Longrightarrow> output a = None \<Longrightarrow>
           fst (main w a st) = Exit 0"
    using cases
    by (auto simp: m handle_output_def getitem_def file_not_found_def file_failure_def
        file_success_def)
qed

section \<open>The claims\<close>

subsection \<open>C1: the temporary file of \<^verbatim>\<open>convert_bytes\<close>\<close>

text \<open>
  Claim C1 says that the temporary file is deleted on every exit path of
  \<^verbatim>\<open>convert_bytes\<close>, so that the files are the same before and after the call. The
  code evaluated on a full disk: \<^verbatim>\<open>/tmp/tmpabc.pdf\<close> does not exist before the call,
  \<^verbatim>\<open>NamedTemporaryFile\<close> creates it, \<^verbatim>\<open>f.write\<close> raises \<^verbatim>\<open>OSError\<close> inside the
  \<^verbatim>\<open>with\<close> block, which is outside the inner \<^verbatim>\<open>try ... finally\<close>, the outer handler
  returns a failure result, and the file is still there. (Lemma
  \<open>convert_bytes_files_restored\<close> is the part of the claim that holds: the files are
  restored whenever the write succeeds.)
\<close>

theorem convert_bytes_leaves_temp_file:
  "\<not> os_path_exists example_state ''/tmp/tmpabc.pdf'' \<and>
   convert_bytes disk_full_world ''data'' ''pdf'' False example_state =
     (Inr (bytes_failure ''.pdf'' disk_full),
      example_state\<lparr>files := (files example_state)(''/tmp/tmpabc.pdf'' \<mapsto> [])\<rparr>) \<and>
   os_path_exists (snd (convert_bytes disk_full_world ''data'' ''pdf'' False example_state))
     ''/tmp/tmpabc.pdf''"
  by (simp add: convert_bytes_def convert_bytes_body_def NamedTemporaryFile_def write_file_def
      disk_full_world_def example_world_def example_state_def disk_full_def startswith_def
      os_path_join_def os_path_exists_def Let_def)

subsection \<open>C2: the exit status after a conversion\<close>

text \<open>
  Claim C2 says that the exit status is 0 when the conversion succeeds and 1 when it
  fails, in JSON mode as in plain mode. The code evaluated on a path that does not
  exist: \<^verbatim>\<open>convert_file\<close> returns a failure result; with \<^verbatim>\<open>--json\<close>, \<^verbatim>\<open>main\<close> prints
  it and ends with status 0, while the same failure in plain mode ends with status 1,
  and so does, in JSON mode, the failure of a missing library.
\<close>

theorem main_json_failure_exits_zero:
  "fst (convert_file example_world ''/docs/missing.pdf'' False example_state) =
     Inr (file_not_found ''/docs/missing.pdf'') \<and>
   getitem (file_not_found ''/docs/missing.pdf'') ''success'' = Inr (PyBool False) \<and>
   main example_world (json_args ''/docs/missing.pdf'') example_state =
     (Exit 0, print (Json (file_not_found ''/docs/missing.pdf'')) example_state) \<and>
   main example_world (plain_args ''/docs/missing.pdf'') example_state =
     (Exit 1, print_stderr ''Error: File not found: /docs/missing.pdf'' example_state) \<and>
   fst (main missing_world (json_args ''/docs/missing.pdf'') example_state) = Exit 1"
  by (simp add: main_def handle_output_def convert_file_def check_markitdown_installed_def
      os_path_exists_def example_world_def example_state_def json_args_def plain_args_def
      missing_world_def no_module_def getitem_def file_not_found_def Let_def)

subsection \<open>C3: exceptions of the converter in \<^verbatim>\<open>convert_file\<close>\<close>




subsection \<open>C4: a path that does not exist\<close>

text \<open>
  Claim C4 as stated, for every path that does not exist, fails when the library is
  not installed: the import is the first statement of \<^verbatim>\<open>convert_file\<close>, before the
  existence check, and its \<^verbatim>\<open>ImportError\<close> reaches the caller.
\<close>

theorem convert_file_missing_path_raises:
  "\<not> os_path_exists example_state ''/docs/missing.pdf'' \<and>
   convert_file missing_world ''/docs/missing.pdf'' False example_state =
     (Inl no_module, example_state)"
  by (simp add: convert_file_def missing_world_def example_world_def example_state_def
      os_path_exists_def)

text \<open>
  Claim C4, amended: when the library can be imported, for every path that does not
  exist \<^verbatim>\<open>convert_file\<close> raises nothing and returns the result with \<^verbatim>\<open>success\<close> false,
  \<^verbatim>\<open>markdown\<close> \<^verbatim>\<open>None\<close>, the error \<^verbatim>\<open>File not found: \<close> followed by the path, and the
  path; the state is unchanged, so the converter is not called.
\<close>

theorem convert_file_not_found:
  assumes "import_markitdown w = None" and "\<not> os_path_exists st p"
  shows "convert_file w p b st =
           (Inr [(''success'', PyBool False),
                 (''error'', PyStr (''File not found: '' @ p)),
                 (''markdown'', PyNone),
                 (''file_path'', PyStr p)], st) \<and>
         calls (snd (convert_file w p b st)) = calls st"
  using assms by (simp add: convert_file_def file_not_found_def)

text \<open>
  Witness for C4: a missing document in the example state.
\<close>

theorem convert_file_not_found_witness:
  "import_markitdown example_world = None \<and>
   \<not> os_path_exists example_state ''/docs/missing.pdf'' \<and>
   convert_file example_world ''/docs/missing.pdf'' True example_state =
     (Inr [(''success'', PyBool False),
           (''error'', PyStr ''File not found: /docs/missing.pdf''),
           (''markdown'', PyNone),
           (''file_path'', PyStr ''/docs/missing.pdf'')], example_state)"
  using convert_file_not_found [of example_world example_state "''/docs/missing.pdf''" True]
  by (simp add: example_world_def example_state_def os_path_exists_def)

subsection \<open>C5: the invariant of a result\<close>

text \<open>
  Claim C5: every result that \<^verbatim>\<open>convert_file\<close> or \<^verbatim>\<open>convert_bytes\<close> returns satisfies
  the invariant: with \<^verbatim>\<open>success\<close> true, \<^verbatim>\<open>markdown\<close> is a string and \<^verbatim>\<open>error\<close> is
  \<^verbatim>\<open>None\<close>; with \<^verbatim>\<open>success\<close> false, \<^verbatim>\<open>error\<close> is a string and \<^verbatim>\<open>markdown\<close> is
  \<^verbatim>\<open>None\<close>.
\<close>

theorem conversion_result_invariant:
  "(convert_file w p b st = (Inr d, st') \<longrightarrow> result_invariant d) \<and>
   (convert_bytes w c ext b st = (Inr d', st'') \<longrightarrow> result_invariant d')"
proof (intro conjI impI)
  assume "convert_file w p b st = (Inr d, st')"
  then show "result_invariant d"
    using convert_file_results [of w p b st d st'] result_invariant_literals by auto
next
  assume "convert_bytes w c ext b st = (Inr d', st'')"
  then show "result_invariant d'"
    using convert_bytes_results [of w c ext b st d' st''] result_invariant_literals by auto
qed

text \<open>
  Witness for C5: the results of both functions in the example world.
\<close>

theorem conversion_result_invariant_witness:
  "convert_file example_world ''/docs/Report.PDF'' False example_state =
     (Inr (file_success ''/docs/Report.PDF'' ''# hello''),
      example_state\<lparr>calls := [Init False, Convert ''/docs/Report.PDF'']\<rparr>) \<and>
   result_invariant (file_success ''/docs/Report.PDF'' ''# hello'') \<and>
   convert_bytes example_world ''data'' ''pdf'' False example_state =
     (Inr (bytes_success ''.pdf'' ''# data''),
      example_state\<lparr>calls := [Init False, Convert ''/tmp/tmpabc.pdf'']\<rparr>) \<and>
   result_invariant (bytes_success ''.pdf'' ''# data'')"
proof -
  have f: "convert_file example_world ''/docs/Report.PDF'' False example_state =
     (Inr (file_success ''/docs/Report.PDF'' ''# hello''),
      example_state\<lparr>calls := [Init False, Convert ''/docs/Report.PDF'']\<rparr>)"
    by (simp add: convert_file_def MarkItDown_def md_convert_def os_path_exists_def
        example_world_def example_state_def Let_def)
  have b: "convert_bytes example_world ''data'' ''pdf'' False example_state =
     (Inr (bytes_success ''.pdf'' ''# data''),
      example_state\<lparr>calls := [Init False, Convert ''/tmp/tmpabc.pdf'']\<rparr>)"
    by (simp add: convert_bytes_def convert_bytes_body_def convert_bytes_finally_def
        convert_bytes_try_def NamedTemporaryFile_def write_file_def os_unlink_def
        MarkItDown_def md_convert_def os_path_join_def startswith_def
        example_world_def example_state_def Let_def)
  from f b show ?thesis
    using conversion_result_invariant
      [where w = example_world and p = "''/docs/Report.PDF''" and b = False
         and st = example_state and d = "file_success ''/docs/Report.PDF'' ''# hello''"
         and st' = "example_state\<lparr>calls := [Init False, Convert ''/docs/Report.PDF'']\<rparr>"
         and c = "''data''" and ext = "''pdf''" and d' = "bytes_success ''.pdf'' ''# data''"
         and st'' = "example_state\<lparr>calls := [Init False, Convert ''/tmp/tmpabc.pdf'']\<rparr>"]
    by simp
qed

subsection \<open>C6: the extension is normalised\<close>



subsection \<open>C7: no file path\<close>




subsection \<open>C8: the result of a successful conversion\<close>



subsection \<open>C9: the keys of the JSON object\<close>




subsection \<open>C10: a missing library\<close>

text \<open>
  Claim C10: when the import of the library raises, \<^verbatim>\<open>convert_file\<close> and
  \<^verbatim>\<open>convert_bytes\<close> raise that exception to their caller and return no result; the
  state is unchanged (no temporary file, no call to the converter).
\<close>

theorem convert_raises_import_error:
  assumes "import_markitdown w = Some e"
  shows "convert_file w p b st = (Inl e, st) \<and>
         convert_bytes w content ext b st = (Inl e, st)"
  using assms by (simp add: convert_file_def convert_bytes_def)

text \<open>
  Witness for C10: the world without the library.
\<close>

theorem convert_raises_import_error_witness:
  "import_markitdown missing_world = Some no_module \<and>
   isinstance_ImportError no_module \<and>
   convert_file missing_world ''/docs/Report.PDF'' False example_state =
     (Inl no_module, example_state) \<and>
   convert_bytes missing_world ''data'' ''pdf'' False example_state =
     (Inl no_module, example_state)"
  using convert_raises_import_error
    [of missing_world no_module "''/docs/Report.PDF''" False example_state "''data''" "''pdf''"]
  by (simp add: missing_world_def no_module_def)

end
